theory Spec2Isabelle
  imports Complex_Main "HOL-Library.Word"
begin

section \<open>Platform values: strings, blobs, files\<close>

text \<open>
  A JavaScript string is a sequence of 16-bit code units. The string constants of the
  source are ASCII; \<open>lit\<close> embeds such a constant.
\<close>

type_synonym jsstring = "16 word list"

definition lit :: "string \<Rightarrow> jsstring" where
  "lit s = map (\<lambda>c. of_nat (of_char c)) s"

text \<open>
  \<open>String.prototype.trim\<close> strips, at both ends, the code units that ECMAScript calls
  WhiteSpace (TAB, VT, FF, SP, NBSP, ZWNBSP and the space separators) or LineTerminator
  (LF, CR, LS, PS).
\<close>

definition isWhiteSpace :: "16 word \<Rightarrow> bool" where
  "isWhiteSpace c =
     (c \<in> set [0x09, 0x0A, 0x0B, 0x0C, 0x0D, 0x20, 0xA0, 0x1680,
                0x2028, 0x2029, 0x202F, 0x205F, 0x3000, 0xFEFF]
      \<or> (0x2000 \<le> c \<and> c \<le> 0x200A))"

definition trim :: "jsstring \<Rightarrow> jsstring" where
  "trim s = rev (dropWhile isWhiteSpace (rev (dropWhile isWhiteSpace s)))"

text \<open>\<open>Number.prototype.toString\<close> on a non-negative integer: its decimal digits.\<close>

fun toString_nat :: "nat \<Rightarrow> jsstring" where
  "toString_nat n =
     (if n < 10 then [of_nat (48 + n)]
      else toString_nat (n div 10) @ [of_nat (48 + n mod 10)])"

declare toString_nat.simps [simp del]

text \<open>
  A \<open>Blob\<close> is a byte sequence with a declared content type. The constructor
  concatenates its parts; it stores the type in lower case, and stores the empty string
  when the type has a code unit outside U+0020..U+007E. A \<open>File\<close> is a blob with a name.
\<close>

record blob =
  b_bytes :: "8 word list"
  b_type :: jsstring

definition size_blob :: "blob \<Rightarrow> nat" where
  "size_blob b = length (b_bytes b)"

definition toLowerAscii :: "16 word \<Rightarrow> 16 word" where
  "toLowerAscii c = (if 0x41 \<le> c \<and> c \<le> 0x5A then c + 0x20 else c)"

definition normalizeType :: "jsstring \<Rightarrow> jsstring" where
  "normalizeType t =
     (if \<forall>c \<in> set t. 0x20 \<le> c \<and> c \<le> 0x7E then map toLowerAscii t else [])"

definition new_Blob :: "blob list \<Rightarrow> jsstring \<Rightarrow> blob" where
  "new_Blob parts t = \<lparr>b_bytes = concat (map b_bytes parts), b_type = normalizeType t\<rparr>"

record jsfile =
  f_name :: jsstring
  f_type :: jsstring
  f_bytes :: "8 word list"

definition new_File :: "blob list \<Rightarrow> jsstring \<Rightarrow> jsstring \<Rightarrow> jsfile" where
  "new_File parts n t =
     \<lparr>f_name = n, f_type = normalizeType t, f_bytes = concat (map b_bytes parts)\<rparr>"

section \<open>VideoRecorder.tsx: the capture controller\<close>

text \<open>
  The component's state hooks and refs. \<open>streamHeld\<close> stands for \<open>streamRef.current\<close>
  being non-null, \<open>mediaRecorder\<close> for \<open>mediaRecorderRef.current\<close>, of which the model
  keeps the options it was constructed with, and \<open>chunks\<close> for \<open>chunksRef.current\<close>.
\<close>

record mediaRecorderOptions =
  mimeType :: "jsstring option"

record recorder =
  isRecording :: bool
  recordedVideoUrl :: "jsstring option"
  recordedBlob :: "blob option"
  description :: jsstring
  isSubmitting :: bool
  hasPermission :: "bool option"
  streamHeld :: bool
  mediaRecorder :: "mediaRecorderOptions option"
  chunks :: "blob list"

record toast =
  t_title :: jsstring
  t_description :: jsstring
  t_destructive :: bool

definition supportedFormats :: "jsstring list" where
  "supportedFormats =
     [lit ''video/webm;codecs=vp9'',
      lit ''video/webm;codecs=vp8'',
      lit ''video/webm'',
      lit ''video/mp4'',
      lit ''video/ogg;codecs=theora'',
      lit ''video/ogg'']"

text \<open>
  The loop \<open>for (const format of supportedFormats) { if (isTypeSupported(format))
  { options.mimeType = format; break; } }\<close>, started with \<open>options = {}\<close>.
\<close>

fun selectFormat :: "(jsstring \<Rightarrow> bool) \<Rightarrow> jsstring list \<Rightarrow> jsstring option" where
  "selectFormat isTypeSupported [] = None"
| "selectFormat isTypeSupported (format # formats) =
     (if isTypeSupported format then Some format
      else selectFormat isTypeSupported formats)"

definition startRecording :: "(jsstring \<Rightarrow> bool) \<Rightarrow> recorder \<Rightarrow> recorder" where
  "startRecording isTypeSupported st =
     (if \<not> streamHeld st then st
      else st\<lparr>chunks := [],
              mediaRecorder :=
                Some \<lparr>mimeType = selectFormat isTypeSupported supportedFormats\<rparr>,
              isRecording := True\<rparr>)"

definition ondataavailable :: "blob \<Rightarrow> recorder \<Rightarrow> recorder" where
  "ondataavailable chunk st =
     (if size_blob chunk > 0 then st\<lparr>chunks := chunks st @ [chunk]\<rparr> else st)"

text \<open>
  The \<open>onstop\<close> handler. \<open>reported\<close> is what the platform's recorder gives as its
  \<open>mimeType\<close> at that moment (the empty string is falsy), \<open>url\<close> the handle that
  \<open>URL.createObjectURL\<close> returns. \<open>originalBlob\<close> is the blob the handler builds
  with the capture type and only logs.
\<close>

definition originalBlob :: "jsstring \<Rightarrow> recorder \<Rightarrow> blob" where
  "originalBlob reported st =
     new_Blob (chunks st) (if reported = [] then lit ''video/webm'' else reported)"

definition finalBlob :: "recorder \<Rightarrow> blob" where
  "finalBlob st = new_Blob (chunks st) (lit ''video/mp4'')"

definition onstop :: "jsstring \<Rightarrow> jsstring \<Rightarrow> recorder \<Rightarrow> recorder" where
  "onstop reported url st =
     st\<lparr>recordedVideoUrl := Some url,
        recordedBlob := Some (finalBlob st),
        streamHeld := False\<rparr>"

definition stopRecording :: "recorder \<Rightarrow> recorder" where
  "stopRecording st =
     (if mediaRecorder st \<noteq> None \<and> isRecording st then st\<lparr>isRecording := False\<rparr> else st)"

text \<open>
  The platform hands the recorded data to \<open>ondataavailable\<close>, chunk by chunk, before it
  fires \<open>onstop\<close>.
\<close>

fun deliver :: "blob list \<Rightarrow> recorder \<Rightarrow> recorder" where
  "deliver [] st = st"
| "deliver (chunk # rest) st = deliver rest (ondataavailable chunk st)"

text \<open>
  \<open>handleSubmit\<close>. The callback \<open>onVideoSubmit\<close> is a prop: it is given the blob and the
  trimmed description and its promise resolves or rejects. What the handler does to the
  outside is listed in order: the calls of the callback and the toasts.
\<close>

datatype settled = Resolves | Rejects

datatype recorder_event = CallOnVideoSubmit blob jsstring | Toast toast

definition toastMissingInformation :: toast where
  "toastMissingInformation =
     \<lparr>t_title = lit ''Missing Information'',
      t_description = lit ''Please provide a description of the problem.'',
      t_destructive = True\<rparr>"

definition toastReportSubmitted :: toast where
  "toastReportSubmitted =
     \<lparr>t_title = lit ''Report Submitted'',
      t_description = lit ''Your video report has been submitted successfully!'',
      t_destructive = False\<rparr>"

definition toastSubmissionFailed :: toast where
  "toastSubmissionFailed =
     \<lparr>t_title = lit ''Submission Failed'',
      t_description = lit ''Failed to submit your report. Please try again.'',
      t_destructive = True\<rparr>"

definition handleSubmit ::
  "(blob \<Rightarrow> jsstring \<Rightarrow> settled) \<Rightarrow> recorder \<Rightarrow> recorder \<times> recorder_event list" where
  "handleSubmit onVideoSubmit st =
     (case recordedBlob st of
        None \<Rightarrow> (st, [Toast toastMissingInformation])
      | Some b \<Rightarrow>
          if trim (description st) = [] then (st, [Toast toastMissingInformation])
          else
            (case onVideoSubmit b (trim (description st)) of
               Resolves \<Rightarrow>
                 (st\<lparr>recordedVideoUrl := None, recordedBlob := None,
                     description := [], isSubmitting := False\<rparr>,
                  [CallOnVideoSubmit b (trim (description st)), Toast toastReportSubmitted])
             | Rejects \<Rightarrow>
                 (st\<lparr>isSubmitting := False\<rparr>,
                  [CallOnVideoSubmit b (trim (description st)), Toast toastSubmissionFailed])))"

definition isCall :: "recorder_event \<Rightarrow> bool" where
  "isCall e = (case e of CallOnVideoSubmit b d \<Rightarrow> True | Toast t \<Rightarrow> False)"

section \<open>api.ts: the submission client\<close>

record analysisData =
  originalName :: jsstring
  fileSize :: rat
  fileSizeInMB :: rat
  analysis :: jsstring
  analysisDate :: jsstring

record videoAnalysisResponse =
  success :: bool
  message :: jsstring
  data :: analysisData

datatype status = Pending | Reviewing | Completed

record report =
  r_id :: jsstring
  r_description :: jsstring
  r_status :: status
  r_submittedAt :: nat
  r_videoSize :: rat
  r_analysis :: "jsstring option"
  r_analysisDate :: "jsstring option"

text \<open>
  An \<open>Error\<close> object is read by the code through its \<open>name\<close> and its \<open>message\<close>;
  \<open>new Error(m)\<close> has the name \<open>Error\<close>. A thrown value is an \<open>Error\<close> object or
  something else (\<open>error instanceof Error\<close> is false).
\<close>

record jserror =
  e_name :: jsstring
  e_message :: jsstring

definition new_Error :: "jsstring \<Rightarrow> jserror" where
  "new_Error m = \<lparr>e_name = lit ''Error'', e_message = m\<rparr>"

datatype thrown = ErrorObject jserror | NotAnError

text \<open>
  The platform's \<open>fetch\<close>. A request is what the code passes to it; \<open>signal\<close> tells
  whether an abort signal is attached. The promise rejects with a thrown value or resolves
  with a response, of which the code reads \<open>status\<close>, \<open>ok\<close> (the status is in 200..299) and
  \<open>json()\<close>, which rejects when the body does not parse. A parsed body has the declared
  shape \<open>'a\<close>: \<open>VideoAnalysisResponse\<close> for the upload, where the body of an error reply is
  read through its \<open>message\<close> alone and an absent message is the empty string (both are
  falsy).
\<close>

datatype formValue = FileValue jsfile | TextValue jsstring

record request =
  url :: jsstring
  httpMethod :: jsstring
  headers :: "(jsstring \<times> jsstring) list"
  formData :: "(jsstring \<times> formValue) list"
  signal :: bool

record 'a response =
  rs_status :: nat
  rs_json :: "jserror + 'a"

definition ok :: "'a response \<Rightarrow> bool" where
  "ok r = (200 \<le> rs_status r \<and> rs_status r \<le> 299)"

datatype 'a fetched = FetchRejects thrown | FetchResolves "'a response"

datatype api_event = SetTimeout nat | ClearTimeout | FetchCall request

definition API_BASE_URL :: jsstring where
  "API_BASE_URL = lit ''https://startup-main.onrender.com/api''"

definition invalidBlobMessage :: jsstring where
  "invalidBlobMessage = lit ''Invalid video blob: empty or missing''"

definition timeoutMessage :: jsstring where
  "timeoutMessage = lit ''Request timeout - video analysis is taking longer than expected''"

definition networkMessage :: jsstring where
  "networkMessage = lit ''Network error occurred''"

definition httpErrorMessage :: "nat \<Rightarrow> jsstring" where
  "httpErrorMessage st = lit ''HTTP error! status: '' @ toString_nat st"

text \<open>The \<open>catch\<close> block of the upload: what it throws for the value it caught.\<close>

definition uploadCatch :: "thrown \<Rightarrow> jserror" where
  "uploadCatch error =
     (case error of
        ErrorObject e \<Rightarrow>
          if e_name e = lit ''AbortError'' then new_Error timeoutMessage else e
      | NotAnError \<Rightarrow> new_Error networkMessage)"

definition uploadRequest :: "jsstring \<Rightarrow> blob \<Rightarrow> jsstring \<Rightarrow> request" where
  "uploadRequest baseUrl videoBlob description' =
     \<lparr>url = baseUrl @ lit ''/videos/analyze-video'',
      httpMethod = lit ''POST'',
      headers = [],
      formData =
        [(lit ''video'',
          FileValue (new_File [videoBlob] (lit ''video.mp4'') (lit ''video/mp4''))),
         (lit ''description'', TextValue description')],
      signal = True\<rparr>"

text \<open>
  \<open>uploadVideoForAnalysis\<close> returns what it did (the timer armed and cleared, the
  request issued) and its outcome: \<open>Inl\<close> the error it throws, \<open>Inr\<close> the parsed result.
\<close>

definition uploadVideoForAnalysis ::
  "jsstring \<Rightarrow> (request \<Rightarrow> videoAnalysisResponse fetched) \<Rightarrow> blob option \<Rightarrow> jsstring
   \<Rightarrow> api_event list \<times> (jserror + videoAnalysisResponse)" where
  "uploadVideoForAnalysis baseUrl fetch videoBlob description' =
     (case videoBlob of
        None \<Rightarrow> ([], Inl (new_Error invalidBlobMessage))
      | Some b \<Rightarrow>
          if size_blob b = 0 then ([], Inl (new_Error invalidBlobMessage))
          else
            (let req = uploadRequest baseUrl b description' in
             case fetch req of
               FetchRejects error \<Rightarrow>
                 ([SetTimeout 120000, FetchCall req, ClearTimeout],
                  Inl (uploadCatch error))
             | FetchResolves response \<Rightarrow>
                 if \<not> ok response then
                   ([SetTimeout 120000, FetchCall req, ClearTimeout, ClearTimeout],
                    Inl (uploadCatch (ErrorObject (new_Error
                      (case rs_json response of
                         Inl e \<Rightarrow> httpErrorMessage (rs_status response)
                       | Inr errorData \<Rightarrow>
                           if message errorData = []
                           then httpErrorMessage (rs_status response)
                           else message errorData)))))
                 else
                   (case rs_json response of
                      Inl e \<Rightarrow>
                        ([SetTimeout 120000, FetchCall req, ClearTimeout, ClearTimeout],
                         Inl (uploadCatch (ErrorObject e)))
                    | Inr result \<Rightarrow>
                        ([SetTimeout 120000, FetchCall req, ClearTimeout],
                         Inr result))))"

definition testConnectionRequest :: "jsstring \<Rightarrow> request" where
  "testConnectionRequest baseUrl =
     \<lparr>url = baseUrl @ lit ''/videos/test-gemini'',
      httpMethod = lit ''GET'',
      headers = [(lit ''Content-Type'', lit ''application/json'')],
      formData = [],
      signal = False\<rparr>"

text \<open>
  \<open>testConnection\<close>: the whole body is inside \<open>try\<close>, and the \<open>catch\<close> returns false.
  The outcome is \<open>Inl\<close> an error it would throw, \<open>Inr\<close> the boolean it returns.
\<close>

definition testConnection ::
  "jsstring \<Rightarrow> (request \<Rightarrow> 'a fetched) \<Rightarrow> api_event list \<times> (jserror + bool)" where
  "testConnection baseUrl fetch =
     (let req = testConnectionRequest baseUrl in
      case fetch req of
        FetchRejects error \<Rightarrow> ([FetchCall req], Inr False)
      | FetchResolves response \<Rightarrow>
          if ok response then
            (case rs_json response of
               Inl e \<Rightarrow> ([FetchCall req], Inr False)
             | Inr d \<Rightarrow> ([FetchCall req], Inr True))
          else ([FetchCall req], Inr False))"

definition isFetchCall :: "api_event \<Rightarrow> bool" where
  "isFetchCall e = (case e of FetchCall r \<Rightarrow> True | _ \<Rightarrow> False)"

section \<open>Dashboard.tsx: the reports list\<close>

text \<open>
  The clock readings one run of \<open>handleVideoSubmit\<close> takes: \<open>Date.now()\<close> for the id,
  \<open>new Date()\<close> for \<open>submittedAt\<close>, and, in the \<open>catch\<close> block, \<open>Date.now()\<close> inside the
  callback of \<open>map\<close>, which runs once for each report: \<open>nowCatch clk k\<close> is the reading
  taken for the report at position \<open>k\<close> of the list.
\<close>

record clock =
  nowId :: nat
  nowSubmitted :: nat
  nowCatch :: "nat \<Rightarrow> nat"

record dashboard =
  reports :: "report list"
  isLoading :: bool

definition tempReport :: "clock \<Rightarrow> blob \<Rightarrow> jsstring \<Rightarrow> report" where
  "tempReport clk videoBlob description' =
     \<lparr>r_id = toString_nat (nowId clk),
      r_description = description',
      r_status = Pending,
      r_submittedAt = nowSubmitted clk,
      r_videoSize = of_nat (size_blob videoBlob) / (1024 * 1024),
      r_analysis = None,
      r_analysisDate = None\<rparr>"

definition updatedReport :: "report \<Rightarrow> videoAnalysisResponse \<Rightarrow> report" where
  "updatedReport temp response =
     temp\<lparr>r_status := Completed,
          r_analysis := Some (analysis (data response)),
          r_analysisDate := Some (analysisDate (data response))\<rparr>"

text \<open>
  The updates the handler passes to \<open>setReports\<close>: the prepending, the two maps that match
  on the temporary report's id, and the map of the \<open>catch\<close> block, which compares each
  report's id with the clock reading taken for that report.
\<close>

definition prependReport :: "report \<Rightarrow> report list \<Rightarrow> report list" where
  "prependReport temp prev = temp # prev"

definition replaceReport :: "jsstring \<Rightarrow> report \<Rightarrow> report list \<Rightarrow> report list" where
  "replaceReport ident updated prev =
     map (\<lambda>report. if r_id report = ident then updated else report) prev"

definition markReviewing :: "jsstring \<Rightarrow> report list \<Rightarrow> report list" where
  "markReviewing ident prev =
     map (\<lambda>report. if r_id report = ident then report\<lparr>r_status := Reviewing\<rparr> else report) prev"

fun markReviewingNow :: "(nat \<Rightarrow> nat) \<Rightarrow> nat \<Rightarrow> report list \<Rightarrow> report list" where
  "markReviewingNow now k [] = []"
| "markReviewingNow now k (report # rest) =
     (if r_id report = toString_nat (now k) then report\<lparr>r_status := Reviewing\<rparr> else report)
     # markReviewingNow now (Suc k) rest"

definition toastAnalysisComplete :: toast where
  "toastAnalysisComplete =
     \<lparr>t_title = lit ''Analysis Complete!'',
      t_description =
        lit ''Your video has been analyzed successfully. View the results below.'',
      t_destructive = False\<rparr>"

definition toastAnalysisFailed :: "jsstring \<Rightarrow> toast" where
  "toastAnalysisFailed msg =
     \<lparr>t_title = lit ''Analysis Failed'',
      t_description =
        (if msg = [] then lit ''Failed to analyze video. Please try again.'' else msg),
      t_destructive = True\<rparr>"

definition toastUploadFailed :: "jserror \<Rightarrow> toast" where
  "toastUploadFailed error =
     \<lparr>t_title = lit ''Upload Failed'',
      t_description = e_message error,
      t_destructive = True\<rparr>"

text \<open>
  \<open>handleVideoSubmit\<close>, one run from its first statement to the end of \<open>finally\<close>, with
  the module's \<open>apiService\<close> (constructed with \<open>API_BASE_URL\<close>) as the client.
\<close>

definition handleVideoSubmit ::
  "(request \<Rightarrow> videoAnalysisResponse fetched) \<Rightarrow> clock \<Rightarrow> blob \<Rightarrow> jsstring
   \<Rightarrow> dashboard \<Rightarrow> dashboard \<times> toast list" where
  "handleVideoSubmit fetch clk videoBlob description' st =
     (let temp = tempReport clk videoBlob description';
          prev = prependReport temp (reports st)
      in case snd (uploadVideoForAnalysis API_BASE_URL fetch (Some videoBlob) description') of
           Inr response \<Rightarrow>
             if success response then
               (st\<lparr>reports := replaceReport (r_id temp) (updatedReport temp response) prev,
                   isLoading := False\<rparr>,
                [toastAnalysisComplete])
             else
               (st\<lparr>reports := markReviewing (r_id temp) prev, isLoading := False\<rparr>,
                [toastAnalysisFailed (message response)])
         | Inl error \<Rightarrow>
             (st\<lparr>reports := markReviewingNow (nowCatch clk) 0 prev,
                 isLoading := False\<rparr>,
              [toastUploadFailed error]))"

text \<open>
  A session of the page: its submit attempts, one after the other. Each attempt brings its
  own network outcome and clock readings. The button that starts a submit is disabled
  while one is pending, so the runs of the handler do not overlap.
\<close>

record attempt =
  a_fetch :: "request \<Rightarrow> videoAnalysisResponse fetched"
  a_clock :: clock
  a_blob :: blob
  a_description :: jsstring

definition attemptReport :: "attempt \<Rightarrow> report" where
  "attemptReport a = tempReport (a_clock a) (a_blob a) (a_description a)"

definition submit :: "attempt \<Rightarrow> dashboard \<Rightarrow> dashboard" where
  "submit a st = fst (handleVideoSubmit (a_fetch a) (a_clock a) (a_blob a) (a_description a) st)"

fun session :: "attempt list \<Rightarrow> dashboard \<Rightarrow> dashboard" where
  "session [] st = st"
| "session (a # as) st = session as (submit a st)"

section \<open>Notions used to state the properties\<close>

text \<open>
  The fields of a report that the handler sets once, when it creates the report; the
  number of positions at which two lists differ; sessions in which every attempt draws an
  id that no report in the list has yet; and attempts whose upload returns a result
  instead of throwing.
\<close>

definition reportCore :: "report \<Rightarrow> jsstring \<times> jsstring \<times> nat \<times> rat" where
  "reportCore r = (r_id r, r_description r, r_submittedAt r, r_videoSize r)"

definition changedCount :: "report list \<Rightarrow> report list \<Rightarrow> nat" where
  "changedCount old new = length (filter (\<lambda>(x, y). x \<noteq> y) (zip old new))"

fun freshIds :: "attempt list \<Rightarrow> dashboard \<Rightarrow> bool" where
  "freshIds [] st = True"
| "freshIds (a # as) st =
     (r_id (attemptReport a) \<notin> set (map r_id (reports st)) \<and> freshIds as (submit a st))"

definition uploadReturns :: "attempt \<Rightarrow> bool" where
  "uploadReturns a =
     (case snd (uploadVideoForAnalysis API_BASE_URL (a_fetch a) (Some (a_blob a)) (a_description a)) of
        Inl e \<Rightarrow> False
      | Inr response \<Rightarrow> True)"

section \<open>Sample values\<close>

definition sampleBlob :: blob where
  "sampleBlob = \<lparr>b_bytes = [0x1A, 0x45, 0xDF], b_type = lit ''video/mp4''\<rparr>"

definition emptyBlob :: blob where
  "emptyBlob = \<lparr>b_bytes = [], b_type = lit ''video/mp4''\<rparr>"

definition sampleChunks :: "blob list" where
  "sampleChunks =
     [\<lparr>b_bytes = [0x1A, 0x45], b_type = lit ''video/webm''\<rparr>,
      \<lparr>b_bytes = [0xDF], b_type = lit ''video/webm''\<rparr>]"

definition sampleRecorder :: recorder where
  "sampleRecorder =
     \<lparr>isRecording = False,
      recordedVideoUrl = Some (lit ''blob:1''),
      recordedBlob = Some sampleBlob,
      description = lit '' leaky faucet '',
      isSubmitting = False,
      hasPermission = Some True,
      streamHeld = True,
      mediaRecorder = None,
      chunks = sampleChunks\<rparr>"

definition onlyMp4 :: "jsstring \<Rightarrow> bool" where
  "onlyMp4 format = (format = lit ''video/mp4'')"

definition callbackResolves :: "blob \<Rightarrow> jsstring \<Rightarrow> settled" where
  "callbackResolves b d = Resolves"

definition callbackRejects :: "blob \<Rightarrow> jsstring \<Rightarrow> settled" where
  "callbackRejects b d = Rejects"

definition sampleResponse :: videoAnalysisResponse where
  "sampleResponse =
     \<lparr>success = True,
      message = lit ''Video analyzed'',
      data = \<lparr>originalName = lit ''video.mp4'', fileSize = 3, fileSizeInMB = 3 / 1048576,
              analysis = lit ''Worn tap washer'', analysisDate = lit ''2026-01-01''\<rparr>\<rparr>"

definition fetchSucceeds :: "request \<Rightarrow> videoAnalysisResponse fetched" where
  "fetchSucceeds req = FetchResolves \<lparr>rs_status = 200, rs_json = Inr sampleResponse\<rparr>"

definition fetchReportsFailure :: "request \<Rightarrow> videoAnalysisResponse fetched" where
  "fetchReportsFailure req =
     FetchResolves \<lparr>rs_status = 200, rs_json = Inr (sampleResponse\<lparr>success := False\<rparr>)\<rparr>"

definition fetchAborts :: "request \<Rightarrow> videoAnalysisResponse fetched" where
  "fetchAborts req =
     FetchRejects (ErrorObject \<lparr>e_name = lit ''AbortError'',
                                e_message = lit ''The user aborted a request.''\<rparr>)"

definition fetchOffline :: "request \<Rightarrow> videoAnalysisResponse fetched" where
  "fetchOffline req =
     FetchRejects (ErrorObject \<lparr>e_name = lit ''TypeError'', e_message = lit ''Failed to fetch''\<rparr>)"

definition fetchGatewayTimeout :: "request \<Rightarrow> videoAnalysisResponse fetched" where
  "fetchGatewayTimeout req =
     FetchResolves \<lparr>rs_status = 504,
                    rs_json = Inr (sampleResponse\<lparr>success := False, message := timeoutMessage\<rparr>)\<rparr>"

definition fetchServerError :: "request \<Rightarrow> videoAnalysisResponse fetched" where
  "fetchServerError req =
     FetchResolves \<lparr>rs_status = 500,
                    rs_json = Inl \<lparr>e_name = lit ''SyntaxError'',
                                   e_message = lit ''Unexpected end of JSON input''\<rparr>\<rparr>"

definition fetchHtmlPage :: "request \<Rightarrow> videoAnalysisResponse fetched" where
  "fetchHtmlPage req =
     FetchResolves \<lparr>rs_status = 200,
                    rs_json = Inl \<lparr>e_name = lit ''SyntaxError'',
                                   e_message = lit ''Unexpected token <''\<rparr>\<rparr>"

definition emptyDashboard :: dashboard where
  "emptyDashboard = \<lparr>reports = [], isLoading = False\<rparr>"

definition sampleClock :: clock where
  "sampleClock =
     \<lparr>nowId = 1700000000000, nowSubmitted = 1700000000000, nowCatch = (\<lambda>k. 1700000120000)\<rparr>"

definition laterClock :: clock where
  "laterClock =
     \<lparr>nowId = 1700000300000, nowSubmitted = 1700000300000, nowCatch = (\<lambda>k. 1700000300850)\<rparr>"

definition attemptA :: attempt where
  "attemptA = \<lparr>a_fetch = fetchSucceeds, a_clock = sampleClock, a_blob = sampleBlob,
               a_description = lit ''kitchen tap''\<rparr>"

definition attemptB :: attempt where
  "attemptB = \<lparr>a_fetch = fetchSucceeds, a_clock = sampleClock, a_blob = sampleBlob,
               a_description = lit ''cabinet door''\<rparr>"

definition attemptC :: attempt where
  "attemptC = \<lparr>a_fetch = fetchOffline, a_clock = laterClock, a_blob = sampleBlob,
               a_description = lit ''cabinet door''\<rparr>"

text \<open>
  A clock that is set back while the \<open>catch\<close> block maps over the list: the readings taken
  for the reports at positions 1 and 2 are the times at which those reports were created.
\<close>

definition resetClock :: clock where
  "resetClock =
     \<lparr>nowId = 1700000600000, nowSubmitted = 1700000600000,
      nowCatch = (\<lambda>k. if k = Suc 0 then 1700000300000
                      else if k = Suc (Suc 0) then 1700000000000
                      else 1700000600850)\<rparr>"

definition attemptD :: attempt where
  "attemptD = \<lparr>a_fetch = fetchOffline, a_clock = resetClock, a_blob = sampleBlob,
               a_description = lit ''window latch''\<rparr>"

section \<open>Facts about the platform values\<close>

lemma dropWhile_all: "(\<forall>x \<in> set (dropWhile P s). P x) \<longleftrightarrow> (\<forall>x \<in> set s. P x)"
  by (induction s) auto

lemma trim_empty: "trim s = [] \<longleftrightarrow> (\<forall>c \<in> set s. isWhiteSpace c)"
  by (simp add: trim_def dropWhile_eq_Nil_conv dropWhile_all)

lemma normalizeType_mp4: "normalizeType (lit ''video/mp4'') = lit ''video/mp4''"
  by (simp add: normalizeType_def lit_def toLowerAscii_def)

lemma httpError_not_timeout: "httpErrorMessage n \<noteq> timeoutMessage"
  by (simp add: httpErrorMessage_def timeoutMessage_def lit_def)

lemma network_not_timeout: "networkMessage \<noteq> timeoutMessage"
  by (simp add: networkMessage_def timeoutMessage_def lit_def)

lemma toString_sampleId: "toString_nat 1700000000000 = lit ''1700000000000''"
  by (simp add: toString_nat.simps lit_def)

lemma toString_sampleCatch: "toString_nat 1700000120000 = lit ''1700000120000''"
  by (simp add: toString_nat.simps lit_def)

lemma toString_laterId: "toString_nat 1700000300000 = lit ''1700000300000''"
  by (simp add: toString_nat.simps lit_def)

lemma size_sampleBlob: "0 < size_blob sampleBlob"
  by (simp add: size_blob_def sampleBlob_def)

lemma sample_valid:
  "recordedBlob sampleRecorder = Some sampleBlob \<and> trim (description sampleRecorder) = lit ''leaky faucet''"
  by (simp add: sampleRecorder_def trim_def lit_def isWhiteSpace_def)

lemma upload_sample:
  "snd (uploadVideoForAnalysis API_BASE_URL fetchSucceeds (Some sampleBlob) d) = Inr sampleResponse"
  using size_sampleBlob by (simp add: uploadVideoForAnalysis_def fetchSucceeds_def ok_def Let_def)

lemma upload_aborted:
  "snd (uploadVideoForAnalysis API_BASE_URL fetchAborts (Some sampleBlob) d)
     = Inl (new_Error timeoutMessage)"
  using size_sampleBlob by (simp add: uploadVideoForAnalysis_def fetchAborts_def Let_def uploadCatch_def)

lemma upload_offline:
  "snd (uploadVideoForAnalysis API_BASE_URL fetchOffline (Some sampleBlob) d)
     = Inl \<lparr>e_name = lit ''TypeError'', e_message = lit ''Failed to fetch''\<rparr>"
  using size_sampleBlob
  by (simp add: uploadVideoForAnalysis_def fetchOffline_def Let_def uploadCatch_def lit_def)

section \<open>The reports list\<close>

subsection \<open>What one run of the handler does to the list\<close>

lemma service_failure_marks_reviewing:
  assumes "snd (uploadVideoForAnalysis API_BASE_URL fetch (Some videoBlob) d) = Inr response"
    and "\<not> success response"
  shows "reports (fst (handleVideoSubmit fetch clk videoBlob d st))
           = (tempReport clk videoBlob d)\<lparr>r_status := Reviewing\<rparr>
             # markReviewing (r_id (tempReport clk videoBlob d)) (reports st)"
  using assms by (simp add: handleVideoSubmit_def Let_def prependReport_def markReviewing_def)

lemma thrown_upload_matches_catch_clock:
  assumes "snd (uploadVideoForAnalysis API_BASE_URL fetch (Some videoBlob) d) = Inl e"
  shows "reports (fst (handleVideoSubmit fetch clk videoBlob d st))
           = markReviewingNow (nowCatch clk) 0 (tempReport clk videoBlob d # reports st)"
  using assms by (simp add: handleVideoSubmit_def Let_def prependReport_def)

lemma markReviewing_absent: "i \<notin> set (map r_id xs) \<Longrightarrow> markReviewing i xs = xs"
  by (induction xs) (auto simp: markReviewing_def)

lemma markReviewingNow_absent:
  "\<forall>j. toString_nat (now j) \<notin> set (map r_id xs) \<Longrightarrow> markReviewingNow now k xs = xs"
  by (induction xs arbitrary: k) auto

lemma thrown_upload_leaves_pending:
  assumes "snd (uploadVideoForAnalysis API_BASE_URL fetch (Some videoBlob) d) = Inl e"
    and "\<forall>j. toString_nat (nowCatch clk j)
              \<notin> set (map r_id (tempReport clk videoBlob d # reports st))"
  shows "reports (fst (handleVideoSubmit fetch clk videoBlob d st))
           = tempReport clk videoBlob d # reports st"
  using thrown_upload_matches_catch_clock [OF assms(1)] markReviewingNow_absent [OF assms(2)]
  by simp

lemma length_markReviewingNow: "length (markReviewingNow now k xs) = length xs"
  by (induction xs arbitrary: k) auto

lemma core_markReviewingNow: "map reportCore (markReviewingNow now k xs) = map reportCore xs"
  by (induction xs arbitrary: k) (auto simp: reportCore_def)

lemma session_append: "session (xs @ ys) st = session ys (session xs st)"
  by (induction xs arbitrary: st) auto

lemma freshIds_append: "freshIds (xs @ ys) st \<longleftrightarrow> freshIds xs st \<and> freshIds ys (session xs st)"
  by (induction xs arbitrary: st) auto

lemma core_markReviewing: "map reportCore (markReviewing i xs) = map reportCore xs"
  by (simp add: markReviewing_def reportCore_def)

lemma replaceReport_fresh: "i \<notin> set (map r_id xs) \<Longrightarrow> replaceReport i u xs = xs"
  by (induction xs) (auto simp: replaceReport_def)

lemma changedCount_map: "changedCount xs (map f xs) = length (filter (\<lambda>x. x \<noteq> f x) xs)"
  by (induction xs) (auto simp: changedCount_def)

lemma one_match:
  "distinct (map g xs) \<Longrightarrow> (\<And>x. P x \<Longrightarrow> g x = i) \<Longrightarrow> length (filter P xs) \<le> Suc 0"
proof (induction xs)
  case Nil
  show ?case by simp
next
  case (Cons x xs)
  from Cons.prems(1) have dx: "distinct (map g xs)" and nx: "g x \<notin> g ` set xs" by simp_all
  have IH: "length (filter P xs) \<le> Suc 0"
    by (rule Cons.IH [OF dx Cons.prems(2)])
  show ?case
  proof (cases "P x")
    case True
    then have gx: "g x = i" by (rule Cons.prems(2))
    have "\<not> P y" if y: "y \<in> set xs" for y
    proof
      assume "P y"
      then have "g y = i" by (rule Cons.prems(2))
      with gx have "g x = g y" by simp
      moreover from y have "g y \<in> g ` set xs" by (rule imageI)
      ultimately show False using nx by simp
    qed
    then have "filter P xs = []" by (simp add: filter_empty_conv)
    with True show ?thesis by simp
  next
    case False
    with IH show ?thesis by simp
  qed
qed

lemma changed_markReviewing:
  assumes "distinct (map r_id xs)"
  shows "changedCount xs (markReviewing i xs) \<le> Suc 0"
  unfolding markReviewing_def changedCount_map
proof (rule one_match [where g = r_id and i = i, OF assms])
  fix x :: report
  assume "x \<noteq> (if r_id x = i then x\<lparr>r_status := Reviewing\<rparr> else x)"
  then show "r_id x = i" by (cases "r_id x = i") simp_all
qed

lemma changed_replaceReport:
  assumes "distinct (map r_id xs)"
  shows "changedCount xs (replaceReport i u xs) \<le> Suc 0"
  unfolding replaceReport_def changedCount_map
proof (rule one_match [where g = r_id and i = i, OF assms])
  fix x :: report
  assume "x \<noteq> (if r_id x = i then u else x)"
  then show "r_id x = i" by (cases "r_id x = i") simp_all
qed

lemma submit_cases:
  "reports (submit a st) = markReviewing (r_id (attemptReport a)) (attemptReport a # reports st) \<or>
   reports (submit a st) = markReviewingNow (nowCatch (a_clock a)) 0 (attemptReport a # reports st) \<or>
   (\<exists>response. reports (submit a st)
       = replaceReport (r_id (attemptReport a)) (updatedReport (attemptReport a) response)
           (attemptReport a # reports st))"
  by (auto simp: submit_def handleVideoSubmit_def Let_def attemptReport_def prependReport_def
      split: sum.splits)

lemma core_updatedReport: "reportCore (updatedReport t response) = reportCore t"
  by (simp add: reportCore_def updatedReport_def)

lemma submit_length: "length (reports (submit a st)) = Suc (length (reports st))"
  using submit_cases [of a st]
  by (auto simp: markReviewing_def replaceReport_def length_markReviewingNow)

lemma session_length: "length (reports (session as st)) = length as + length (reports st)"
  by (induction as arbitrary: st) (auto simp: submit_length)

lemma submit_core:
  assumes "r_id (attemptReport a) \<notin> set (map r_id (reports st))"
  shows "map reportCore (reports (submit a st))
           = reportCore (attemptReport a) # map reportCore (reports st)"
proof -
  have "replaceReport (r_id (attemptReport a)) u (attemptReport a # reports st) = u # reports st" for u
    using replaceReport_fresh [OF assms] by (simp add: replaceReport_def)
  with submit_cases [of a st] show ?thesis
    using core_markReviewing [of _ "attemptReport a # reports st"]
      core_markReviewingNow [of _ _ "attemptReport a # reports st"]
    by (auto simp: core_updatedReport)
qed

lemma ids_core: "map r_id xs = map fst (map reportCore xs)"
  by (simp add: reportCore_def)

lemma submit_distinct:
  assumes "distinct (map r_id (reports st))"
    and "r_id (attemptReport a) \<notin> set (map r_id (reports st))"
  shows "distinct (map r_id (reports (submit a st)))"
proof -
  have "map r_id (reports (submit a st)) = r_id (attemptReport a) # map r_id (reports st)"
    unfolding ids_core [of "reports (submit a st)"] submit_core [OF assms(2)]
    by (simp add: reportCore_def)
  with assms show ?thesis by simp
qed

lemma submit_returned_cases:
  assumes "uploadReturns a"
  shows "reports (submit a st) = markReviewing (r_id (attemptReport a)) (attemptReport a # reports st) \<or>
   (\<exists>response. reports (submit a st)
       = replaceReport (r_id (attemptReport a)) (updatedReport (attemptReport a) response)
           (attemptReport a # reports st))"
  using assms
  by (auto simp: uploadReturns_def submit_def handleVideoSubmit_def Let_def attemptReport_def
      prependReport_def split: sum.splits)

lemma submit_changed:
  assumes "distinct (map r_id (reports st))"
    and "r_id (attemptReport a) \<notin> set (map r_id (reports st))"
    and "uploadReturns a"
  shows "changedCount (attemptReport a # reports st) (reports (submit a st)) \<le> Suc 0"
proof -
  from assms have d: "distinct (map r_id (attemptReport a # reports st))" by simp
  from submit_returned_cases [OF assms(3), of st]
    changed_markReviewing [OF d] changed_replaceReport [OF d]
  show ?thesis by auto
qed

lemma submit_tail:
  assumes "r_id (attemptReport a) \<notin> set (map r_id (reports st))"
    and "uploadReturns a"
  shows "tl (reports (submit a st)) = reports st"
proof -
  have r: "tl (replaceReport (r_id (attemptReport a)) u (attemptReport a # reports st)) = reports st"
    for u
    using replaceReport_fresh [OF assms(1)] by (simp add: replaceReport_def)
  have m: "tl (markReviewing (r_id (attemptReport a)) (attemptReport a # reports st)) = reports st"
    using markReviewing_absent [OF assms(1)] by (simp add: markReviewing_def)
  from submit_returned_cases [OF assms(2), of st] r m show ?thesis by auto
qed

lemma session_distinct:
  "distinct (map r_id (reports st)) \<Longrightarrow> freshIds as st \<Longrightarrow>
   distinct (map r_id (reports (session as st)))"
  by (induction as arbitrary: st) (auto simp: submit_distinct)

lemma session_core:
  "freshIds as st \<Longrightarrow>
   map reportCore (reports (session as st))
     = rev (map (\<lambda>a. reportCore (attemptReport a)) as) @ map reportCore (reports st)"
  by (induction as arbitrary: st) (auto simp: submit_core)

lemma pending_attemptReport: "r_status (attemptReport a) = Pending"
  by (simp add: attemptReport_def tempReport_def)

lemma submit_thrown:
  assumes "snd (uploadVideoForAnalysis API_BASE_URL (a_fetch a) (Some (a_blob a)) (a_description a))
             = Inl e"
  shows "reports (submit a st)
           = markReviewingNow (nowCatch (a_clock a)) 0 (attemptReport a # reports st)"
  using thrown_upload_matches_catch_clock [OF assms] by (simp add: submit_def attemptReport_def)

subsection \<open>Merging a successful result\<close>

text \<open>
  C1. A report created with status Pending by a submit attempt and merged, by the
  handler, with an upload result whose \<open>success\<close> is true is the head of the list
  afterwards, with status Completed, with \<open>analysis\<close> and \<open>analysisDate\<close> taken from the
  result's data, and with \<open>id\<close>, \<open>description\<close>, \<open>submittedAt\<close> and \<open>videoSize\<close> as in
  the Pending report.
\<close>

theorem merge_success:
  assumes "snd (uploadVideoForAnalysis API_BASE_URL fetch (Some videoBlob) d) = Inr response"
    and "success response"
  shows "r_status (tempReport clk videoBlob d) = Pending \<and>
         reports (fst (handleVideoSubmit fetch clk videoBlob d st))
           = updatedReport (tempReport clk videoBlob d) response
             # replaceReport (r_id (tempReport clk videoBlob d))
                 (updatedReport (tempReport clk videoBlob d) response) (reports st) \<and>
         r_status (updatedReport (tempReport clk videoBlob d) response) = Completed \<and>
         r_analysis (updatedReport (tempReport clk videoBlob d) response)
           = Some (analysis (data response)) \<and>
         r_analysisDate (updatedReport (tempReport clk videoBlob d) response)
           = Some (analysisDate (data response)) \<and>
         r_id (updatedReport (tempReport clk videoBlob d) response)
           = r_id (tempReport clk videoBlob d) \<and>
         r_description (updatedReport (tempReport clk videoBlob d) response)
           = r_description (tempReport clk videoBlob d) \<and>
         r_submittedAt (updatedReport (tempReport clk videoBlob d) response)
           = r_submittedAt (tempReport clk videoBlob d) \<and>
         r_videoSize (updatedReport (tempReport clk videoBlob d) response)
           = r_videoSize (tempReport clk videoBlob d)"
  using assms
  by (simp add: handleVideoSubmit_def Let_def prependReport_def replaceReport_def
      updatedReport_def tempReport_def)

theorem merge_success_witness:
  "snd (uploadVideoForAnalysis API_BASE_URL fetchSucceeds (Some sampleBlob) (lit ''kitchen tap''))
     = Inr sampleResponse \<and>
   success sampleResponse \<and>
   reports (fst (handleVideoSubmit fetchSucceeds sampleClock sampleBlob (lit ''kitchen tap'')
              emptyDashboard))
     = [\<lparr>r_id = lit ''1700000000000'', r_description = lit ''kitchen tap'',
         r_status = Completed, r_submittedAt = 1700000000000, r_videoSize = 3 / 1048576,
         r_analysis = Some (lit ''Worn tap washer''),
         r_analysisDate = Some (lit ''2026-01-01'')\<rparr>]"
proof -
  have s: "success sampleResponse" by (simp add: sampleResponse_def)
  have t: "updatedReport (tempReport sampleClock sampleBlob (lit ''kitchen tap'')) sampleResponse
     = \<lparr>r_id = lit ''1700000000000'', r_description = lit ''kitchen tap'',
         r_status = Completed, r_submittedAt = 1700000000000, r_videoSize = 3 / 1048576,
         r_analysis = Some (lit ''Worn tap washer''),
         r_analysisDate = Some (lit ''2026-01-01'')\<rparr>"
    by (simp add: updatedReport_def tempReport_def sampleClock_def sampleResponse_def toString_sampleId
        size_blob_def sampleBlob_def)
  have e: "reports emptyDashboard = []" by (simp add: emptyDashboard_def)
  from merge_success [OF upload_sample [of "lit ''kitchen tap''"] s,
         where clk = sampleClock and st = emptyDashboard]
  have "reports (fst (handleVideoSubmit fetchSucceeds sampleClock sampleBlob (lit ''kitchen tap'')
              emptyDashboard))
     = updatedReport (tempReport sampleClock sampleBlob (lit ''kitchen tap'')) sampleResponse
       # replaceReport (r_id (tempReport sampleClock sampleBlob (lit ''kitchen tap'')))
           (updatedReport (tempReport sampleClock sampleBlob (lit ''kitchen tap'')) sampleResponse)
           (reports emptyDashboard)"
    by blast
  with t e upload_sample s show ?thesis by (simp add: replaceReport_def)
qed

subsection \<open>A failed submit\<close>

text \<open>
  C2. After an attempt whose upload throws, the temporary report should be in the list
  with status Reviewing. The \<open>catch\<close> block looks for the report under a fresh
  \<open>Date.now()\<close> instead of the temporary report's id, as the branch for a reported failure
  does, so the report keeps the status Pending once the clock has moved on: here the
  upload is aborted by the timeout, 120 seconds after the report was created.
\<close>

theorem failed_upload_stays_pending:
  "snd (uploadVideoForAnalysis API_BASE_URL fetchAborts (Some sampleBlob) (lit ''kitchen tap''))
     = Inl (new_Error timeoutMessage) \<and>
   map r_status (reports (fst (handleVideoSubmit fetchAborts sampleClock sampleBlob
                                 (lit ''kitchen tap'') emptyDashboard)))
     = [Pending]"
proof -
  have n: "lit ''1700000000000'' \<noteq> lit ''1700000120000''" by (simp add: lit_def)
  show ?thesis
    using n by (simp add: handleVideoSubmit_def upload_aborted Let_def prependReport_def
        tempReport_def sampleClock_def emptyDashboard_def toString_sampleId toString_sampleCatch)
qed

text \<open>
  The map of the \<open>catch\<close> block can change more than one report. In the session below the
  first report is Completed and the second one Pending when the third upload throws; the
  clock is set back while the block maps over the list, the readings taken for the two
  older reports are their ids, and both become Reviewing.
\<close>

lemma thrown_upload_can_mark_two:
  "map r_status (reports (session [attemptA, attemptC] emptyDashboard)) = [Pending, Completed] \<and>
   map r_status (reports (session [attemptA, attemptC, attemptD] emptyDashboard))
     = [Pending, Reviewing, Reviewing]"
proof -
  have a: "reports (submit attemptA emptyDashboard)
             = [updatedReport (attemptReport attemptA) sampleResponse]"
    by (simp add: submit_def handleVideoSubmit_def attemptA_def upload_sample Let_def
        sampleResponse_def prependReport_def replaceReport_def emptyDashboard_def attemptReport_def)
  have ia: "r_id (updatedReport (attemptReport attemptA) sampleResponse) = lit ''1700000000000''"
    by (simp add: updatedReport_def attemptReport_def attemptA_def tempReport_def sampleClock_def
        toString_sampleId)
  have ic: "r_id (attemptReport attemptC) = lit ''1700000300000''"
    by (simp add: attemptReport_def attemptC_def tempReport_def laterClock_def toString_laterId)
  have id: "r_id (attemptReport attemptD) = lit ''1700000600000''"
    by (simp add: attemptReport_def attemptD_def tempReport_def resetClock_def
        toString_nat.simps lit_def)
  have k: "toString_nat 1700000300850 = lit ''1700000300850''"
    "toString_nat 1700000600850 = lit ''1700000600850''"
    by (simp_all add: toString_nat.simps lit_def)
  have n: "lit ''1700000300000'' \<noteq> lit ''1700000300850''"
    "lit ''1700000000000'' \<noteq> lit ''1700000300850''"
    "lit ''1700000600000'' \<noteq> lit ''1700000600850''"
    by (simp_all add: lit_def)
  have uc: "snd (uploadVideoForAnalysis API_BASE_URL (a_fetch attemptC) (Some (a_blob attemptC))
                   (a_description attemptC))
              = Inl \<lparr>e_name = lit ''TypeError'', e_message = lit ''Failed to fetch''\<rparr>"
    by (simp add: attemptC_def upload_offline)
  have ud: "snd (uploadVideoForAnalysis API_BASE_URL (a_fetch attemptD) (Some (a_blob attemptD))
                   (a_description attemptD))
              = Inl \<lparr>e_name = lit ''TypeError'', e_message = lit ''Failed to fetch''\<rparr>"
    by (simp add: attemptD_def upload_offline)
  have nc: "nowCatch (a_clock attemptC) = (\<lambda>k. 1700000300850)"
    by (simp add: attemptC_def laterClock_def)
  have nd: "nowCatch (a_clock attemptD)
              = (\<lambda>k. if k = Suc 0 then 1700000300000
                     else if k = Suc (Suc 0) then 1700000000000
                     else 1700000600850)"
    by (simp add: attemptD_def resetClock_def)
  have c: "reports (submit attemptC (submit attemptA emptyDashboard))
             = [attemptReport attemptC, updatedReport (attemptReport attemptA) sampleResponse]"
    unfolding submit_thrown [OF uc] a nc using n ia ic k by simp
  have dd: "reports (submit attemptD (submit attemptC (submit attemptA emptyDashboard)))
             = [attemptReport attemptD,
                (attemptReport attemptC)\<lparr>r_status := Reviewing\<rparr>,
                (updatedReport (attemptReport attemptA) sampleResponse)\<lparr>r_status := Reviewing\<rparr>]"
    unfolding submit_thrown [OF ud] c nd
    using n ia ic id k by (simp add: toString_sampleId toString_laterId)
  from c dd show ?thesis
    by (simp add: updatedReport_def pending_attemptReport)
qed

subsection \<open>The list over a session\<close>

text \<open>
  C10, for sessions in which every attempt draws an id that no report in the list has
  yet. Each attempt prepends one report with status Pending and then maps over the list;
  the map keeps the \<open>id\<close>, \<open>description\<close>, \<open>submittedAt\<close> and \<open>videoSize\<close> of every report,
  so the list grows by one report per attempt, no report leaves it, and those four fields
  of a report stay as they were at its creation. When the upload of the attempt returns a
  result, the map replaces at most one report, and none but the attempt's own. Which
  statuses the map of the \<open>catch\<close> block changes when the upload throws is not part of
  the statement.
\<close>

theorem reports_list_evolution:
  assumes "distinct (map r_id (reports st))" and "freshIds as st"
  shows "map reportCore (reports (session as st))
           = rev (map (\<lambda>a. reportCore (attemptReport a)) as) @ map reportCore (reports st) \<and>
         length (reports (session as st)) = length as + length (reports st) \<and>
         (\<forall>pre a post. as = pre @ a # post \<longrightarrow>
            r_status (attemptReport a) = Pending \<and>
            length (reports (session (pre @ [a]) st)) = Suc (length (reports (session pre st))) \<and>
            map reportCore (reports (session (pre @ [a]) st))
              = map reportCore (attemptReport a # reports (session pre st)) \<and>
            (uploadReturns a \<longrightarrow>
               changedCount (attemptReport a # reports (session pre st))
                            (reports (session (pre @ [a]) st)) \<le> 1 \<and>
               tl (reports (session (pre @ [a]) st)) = reports (session pre st)))"
proof -
  have step: "r_status (attemptReport a) = Pending \<and>
            length (reports (session (pre @ [a]) st)) = Suc (length (reports (session pre st))) \<and>
            map reportCore (reports (session (pre @ [a]) st))
              = map reportCore (attemptReport a # reports (session pre st)) \<and>
            (uploadReturns a \<longrightarrow>
               changedCount (attemptReport a # reports (session pre st))
                            (reports (session (pre @ [a]) st)) \<le> 1 \<and>
               tl (reports (session (pre @ [a]) st)) = reports (session pre st))"
    if split: "as = pre @ a # post" for pre a post
  proof -
    from assms(2) split have f: "freshIds pre st"
      and g: "r_id (attemptReport a) \<notin> set (map r_id (reports (session pre st)))"
      by (simp_all add: freshIds_append)
    from session_distinct [OF assms(1) f]
    have d: "distinct (map r_id (reports (session pre st)))" .
    have e: "session (pre @ [a]) st = submit a (session pre st)"
      by (simp add: session_append)
    have r: "uploadReturns a \<longrightarrow>
               changedCount (attemptReport a # reports (session pre st))
                            (reports (submit a (session pre st))) \<le> 1 \<and>
               tl (reports (submit a (session pre st))) = reports (session pre st)"
      using submit_changed [OF d g] submit_tail [OF g] by simp
    from r submit_core [OF g] submit_length [of a "session pre st"]
      pending_attemptReport [of a]
    show ?thesis unfolding e by simp
  qed
  have all: "\<forall>pre a post. as = pre @ a # post \<longrightarrow>
            r_status (attemptReport a) = Pending \<and>
            length (reports (session (pre @ [a]) st)) = Suc (length (reports (session pre st))) \<and>
            map reportCore (reports (session (pre @ [a]) st))
              = map reportCore (attemptReport a # reports (session pre st)) \<and>
            (uploadReturns a \<longrightarrow>
               changedCount (attemptReport a # reports (session pre st))
                            (reports (session (pre @ [a]) st)) \<le> 1 \<and>
               tl (reports (session (pre @ [a]) st)) = reports (session pre st))"
  proof (intro allI impI)
    fix pre a post
    assume "as = pre @ a # post"
    then show "r_status (attemptReport a) = Pending \<and>
            length (reports (session (pre @ [a]) st)) = Suc (length (reports (session pre st))) \<and>
            map reportCore (reports (session (pre @ [a]) st))
              = map reportCore (attemptReport a # reports (session pre st)) \<and>
            (uploadReturns a \<longrightarrow>
               changedCount (attemptReport a # reports (session pre st))
                            (reports (session (pre @ [a]) st)) \<le> 1 \<and>
               tl (reports (session (pre @ [a]) st)) = reports (session pre st))"
      by (rule step)
  qed
  show ?thesis
    by (rule conjI [OF session_core [OF assms(2)] conjI [OF session_length all]])
qed

theorem reports_list_evolution_witness:
  "distinct (map r_id (reports emptyDashboard)) \<and>
   freshIds [attemptA, attemptC] emptyDashboard \<and>
   uploadReturns attemptA \<and>
   map reportCore (reports (session [attemptA, attemptC] emptyDashboard))
     = [(lit ''1700000300000'', lit ''cabinet door'', 1700000300000, 3 / 1048576),
        (lit ''1700000000000'', lit ''kitchen tap'', 1700000000000, 3 / 1048576)] \<and>
   length (reports (session [attemptA, attemptC] emptyDashboard)) = 2 \<and>
   changedCount (attemptReport attemptA # reports (session [] emptyDashboard))
                (reports (session ([] @ [attemptA]) emptyDashboard)) \<le> 1 \<and>
   tl (reports (session ([] @ [attemptA]) emptyDashboard)) = reports (session [] emptyDashboard)"
proof -
  have d: "distinct (map r_id (reports emptyDashboard))" by (simp add: emptyDashboard_def)
  have e: "reports emptyDashboard = []" by (simp add: emptyDashboard_def)
  have a: "reports (submit attemptA emptyDashboard)
             = [updatedReport (attemptReport attemptA) sampleResponse]"
    by (simp add: submit_def handleVideoSubmit_def attemptA_def upload_sample Let_def
        sampleResponse_def prependReport_def replaceReport_def emptyDashboard_def attemptReport_def)
  have ia: "r_id (attemptReport attemptA) = lit ''1700000000000''"
    by (simp add: attemptReport_def attemptA_def tempReport_def sampleClock_def toString_sampleId)
  have ic: "r_id (attemptReport attemptC) = lit ''1700000300000''"
    by (simp add: attemptReport_def attemptC_def tempReport_def laterClock_def toString_laterId)
  have n: "lit ''1700000300000'' \<noteq> lit ''1700000000000''" by (simp add: lit_def)
  have f: "freshIds [attemptA, attemptC] emptyDashboard"
    using n by (simp add: e a ia ic updatedReport_def)
  have u: "uploadReturns attemptA"
    by (simp add: uploadReturns_def attemptA_def upload_sample)
  have ca: "reportCore (attemptReport attemptA)
              = (lit ''1700000000000'', lit ''kitchen tap'', 1700000000000, 3 / 1048576)"
    by (simp add: reportCore_def attemptReport_def attemptA_def tempReport_def sampleClock_def
        toString_sampleId size_blob_def sampleBlob_def)
  have cc: "reportCore (attemptReport attemptC)
              = (lit ''1700000300000'', lit ''cabinet door'', 1700000300000, 3 / 1048576)"
    by (simp add: reportCore_def attemptReport_def attemptC_def tempReport_def laterClock_def
        toString_laterId size_blob_def sampleBlob_def)
  have sp: "[attemptA, attemptC] = [] @ attemptA # [attemptC]" by simp
  note t = reports_list_evolution [OF d f]
  from t have 1: "map reportCore (reports (session [attemptA, attemptC] emptyDashboard))
     = [(lit ''1700000300000'', lit ''cabinet door'', 1700000300000, 3 / 1048576),
        (lit ''1700000000000'', lit ''kitchen tap'', 1700000000000, 3 / 1048576)]"
    using ca cc e by simp
  from t have 2: "length (reports (session [attemptA, attemptC] emptyDashboard)) = 2"
    using e by simp
  from t sp have "uploadReturns attemptA \<longrightarrow>
               changedCount (attemptReport attemptA # reports (session [] emptyDashboard))
                            (reports (session ([] @ [attemptA]) emptyDashboard)) \<le> 1 \<and>
               tl (reports (session ([] @ [attemptA]) emptyDashboard))
                 = reports (session [] emptyDashboard)"
    by blast
  with u have 3: "changedCount (attemptReport attemptA # reports (session [] emptyDashboard))
                            (reports (session ([] @ [attemptA]) emptyDashboard)) \<le> 1 \<and>
               tl (reports (session ([] @ [attemptA]) emptyDashboard))
                 = reports (session [] emptyDashboard)"
    by blast
  from d f u 1 2 3 show ?thesis by blast
qed

text \<open>
  Without fresh ids the property fails: when two attempts read the same \<open>Date.now()\<close>,
  the second successful merge replaces both reports by the second one's copy, and the
  first report's description is lost.
\<close>

theorem reports_list_counterexample:
  "map r_description (reports (session [attemptA] emptyDashboard)) = [lit ''kitchen tap''] \<and>
   map r_description (reports (session [attemptA, attemptB] emptyDashboard))
     = [lit ''cabinet door'', lit ''cabinet door''] \<and>
   changedCount (attemptReport attemptB # reports (session [attemptA] emptyDashboard))
                (reports (session [attemptA, attemptB] emptyDashboard)) = 2"
proof -
  have a: "reports (submit attemptA emptyDashboard)
             = [updatedReport (attemptReport attemptA) sampleResponse]"
    by (simp add: submit_def handleVideoSubmit_def attemptA_def upload_sample Let_def
        sampleResponse_def prependReport_def replaceReport_def emptyDashboard_def attemptReport_def)
  have i: "r_id (attemptReport attemptB) = r_id (attemptReport attemptA)"
    by (simp add: attemptReport_def attemptA_def attemptB_def tempReport_def)
  have b: "reports (submit attemptB (submit attemptA emptyDashboard))
             = [updatedReport (attemptReport attemptB) sampleResponse,
                updatedReport (attemptReport attemptB) sampleResponse]"
    using a i
    by (simp add: submit_def handleVideoSubmit_def attemptB_def upload_sample Let_def
        sampleResponse_def prependReport_def replaceReport_def attemptReport_def
        updatedReport_def)
  have da: "r_description (updatedReport (attemptReport attemptA) sampleResponse) = lit ''kitchen tap''"
    by (simp add: updatedReport_def attemptReport_def attemptA_def tempReport_def)
  have db: "r_description (updatedReport (attemptReport attemptB) sampleResponse) = lit ''cabinet door''"
    by (simp add: updatedReport_def attemptReport_def attemptB_def tempReport_def)
  have n1: "attemptReport attemptB \<noteq> updatedReport (attemptReport attemptB) sampleResponse"
    by (simp add: updatedReport_def attemptReport_def tempReport_def report.equality)
  have "lit ''kitchen tap'' \<noteq> lit ''cabinet door''" by (simp add: lit_def)
  with da db
  have n2: "updatedReport (attemptReport attemptA) sampleResponse
              \<noteq> updatedReport (attemptReport attemptB) sampleResponse"
    by auto
  from a b da db n1 n2 show ?thesis by (simp add: changedCount_def)
qed

section \<open>The capture controller\<close>

subsection \<open>Validation before submitting\<close>

text \<open>
  C3. When the description is empty or has only whitespace, and likewise when no recorded
  media is present, \<open>handleSubmit\<close> does not call the submission callback; it shows the
  validation toast and leaves the state as it is.
\<close>

theorem handleSubmit_validation:
  assumes "(\<forall>c \<in> set (description st). isWhiteSpace c) \<or> recordedBlob st = None"
  shows "handleSubmit onVideoSubmit st = (st, [Toast toastMissingInformation]) \<and>
         \<not> (\<exists>e \<in> set (snd (handleSubmit onVideoSubmit st)). isCall e)"
  using assms by (auto simp: handleSubmit_def trim_empty isCall_def split: option.splits)

theorem handleSubmit_validation_witness:
  "((\<forall>c \<in> set (description (sampleRecorder\<lparr>description := lit ''  ''\<rparr>)). isWhiteSpace c)
     \<or> recordedBlob (sampleRecorder\<lparr>description := lit ''  ''\<rparr>) = None) \<and>
   handleSubmit callbackResolves (sampleRecorder\<lparr>description := lit ''  ''\<rparr>)
     = (sampleRecorder\<lparr>description := lit ''  ''\<rparr>, [Toast toastMissingInformation]) \<and>
   \<not> (\<exists>e \<in> set (snd (handleSubmit callbackResolves (sampleRecorder\<lparr>description := lit ''  ''\<rparr>))).
         isCall e)"
proof -
  have h: "(\<forall>c \<in> set (description (sampleRecorder\<lparr>description := lit ''  ''\<rparr>)). isWhiteSpace c)
     \<or> recordedBlob (sampleRecorder\<lparr>description := lit ''  ''\<rparr>) = None"
    by (simp add: lit_def isWhiteSpace_def)
  from h handleSubmit_validation [OF h, of callbackResolves] show ?thesis by blast
qed

subsection \<open>The outcome of a valid submit\<close>

text \<open>
  C4. On a valid submit (recorded media present, trimmed description not empty) the
  callback is called with the media and the trimmed description. If it resolves, the
  recorded media, the recorded-video URL and the description are cleared; if it rejects,
  all three are as before the attempt.
\<close>

theorem handleSubmit_outcome:
  assumes "recordedBlob st = Some b" and "trim (description st) \<noteq> []"
  shows "snd (handleSubmit onVideoSubmit st) ! 0 = CallOnVideoSubmit b (trim (description st)) \<and>
         (case onVideoSubmit b (trim (description st)) of
            Resolves \<Rightarrow>
              recordedBlob (fst (handleSubmit onVideoSubmit st)) = None \<and>
              recordedVideoUrl (fst (handleSubmit onVideoSubmit st)) = None \<and>
              description (fst (handleSubmit onVideoSubmit st)) = []
          | Rejects \<Rightarrow>
              recordedBlob (fst (handleSubmit onVideoSubmit st)) = recordedBlob st \<and>
              recordedVideoUrl (fst (handleSubmit onVideoSubmit st)) = recordedVideoUrl st \<and>
              description (fst (handleSubmit onVideoSubmit st)) = description st)"
  using assms by (simp add: handleSubmit_def split: settled.splits)

theorem handleSubmit_outcome_witness:
  "recordedBlob sampleRecorder = Some sampleBlob \<and> trim (description sampleRecorder) \<noteq> [] \<and>
   recordedBlob (fst (handleSubmit callbackResolves sampleRecorder)) = None \<and>
   recordedVideoUrl (fst (handleSubmit callbackResolves sampleRecorder)) = None \<and>
   description (fst (handleSubmit callbackResolves sampleRecorder)) = [] \<and>
   recordedBlob (fst (handleSubmit callbackRejects sampleRecorder)) = Some sampleBlob \<and>
   recordedVideoUrl (fst (handleSubmit callbackRejects sampleRecorder)) = Some (lit ''blob:1'') \<and>
   description (fst (handleSubmit callbackRejects sampleRecorder)) = lit '' leaky faucet ''"
proof -
  have h1: "recordedBlob sampleRecorder = Some sampleBlob" using sample_valid by simp
  have h2: "trim (description sampleRecorder) \<noteq> []" using sample_valid by (simp add: lit_def)
  have s: "recordedVideoUrl sampleRecorder = Some (lit ''blob:1'')"
    "description sampleRecorder = lit '' leaky faucet ''"
    by (simp_all add: sampleRecorder_def)
  from handleSubmit_outcome [OF h1 h2, of callbackResolves]
       handleSubmit_outcome [OF h1 h2, of callbackRejects] h1 h2 s
  show ?thesis by (simp add: callbackResolves_def callbackRejects_def)
qed

subsection \<open>The recorded object and its declared type\<close>

lemma chunks_deliver:
  "chunks (deliver cs st) = chunks st @ filter (\<lambda>c. 0 < size_blob c) cs"
  by (induction cs arbitrary: st) (auto simp: ondataavailable_def)

lemma concat_nonempty_chunks:
  "concat (map b_bytes (filter (\<lambda>c. 0 < size_blob c) cs)) = concat (map b_bytes cs)"
  by (induction cs) (auto simp: size_blob_def)

text \<open>
  A whole recording: started with a stream held, stopped, the data delivered in the
  chunks \<open>cs\<close>. The stored object has exactly the delivered bytes.
\<close>

lemma recorded_bytes_of_run:
  assumes "streamHeld st"
  shows "recordedBlob (onstop reported u (deliver cs (stopRecording (startRecording isTypeSupported st))))
           = Some \<lparr>b_bytes = concat (map b_bytes cs), b_type = lit ''video/mp4''\<rparr>"
proof -
  have c: "chunks (deliver cs (stopRecording (startRecording isTypeSupported st)))
             = filter (\<lambda>c. 0 < size_blob c) cs"
    using assms by (simp add: stopRecording_def chunks_deliver startRecording_def)
  show ?thesis
    by (simp add: onstop_def finalBlob_def new_Blob_def c concat_nonempty_chunks normalizeType_mp4)
qed

text \<open>
  C8. The media object that \<open>onstop\<close> stores has the declared type \<open>video/mp4\<close>
  whatever type the recorder reports, and its bytes are the concatenation of the buffered
  chunks, the same bytes as those of the blob built with the capture type. Every request
  of the upload carries the media under the field \<open>video\<close> as a file named
  \<open>video.mp4\<close> of declared type \<open>video/mp4\<close> with the media's bytes, and an upload of
  non-empty media issues that request.
\<close>

theorem canonical_type_relabelling:
  "recordedBlob (onstop reported u st) = Some (finalBlob st) \<and>
   b_type (finalBlob st) = lit ''video/mp4'' \<and>
   b_bytes (finalBlob st) = concat (map b_bytes (chunks st)) \<and>
   b_bytes (finalBlob st) = b_bytes (originalBlob reported st) \<and>
   (0 < size_blob b \<longrightarrow>
      FetchCall (uploadRequest baseUrl b d)
        \<in> set (fst (uploadVideoForAnalysis baseUrl fetch (Some b) d))) \<and>
   (\<forall>req. FetchCall req \<in> set (fst (uploadVideoForAnalysis baseUrl fetch (Some b) d)) \<longrightarrow>
      map_of (formData req) (lit ''video'')
        = Some (FileValue \<lparr>f_name = lit ''video.mp4'', f_type = lit ''video/mp4'',
                          f_bytes = b_bytes b\<rparr>))"
proof -
  have v: "map_of (formData (uploadRequest baseUrl b d)) (lit ''video'')
        = Some (FileValue \<lparr>f_name = lit ''video.mp4'', f_type = lit ''video/mp4'',
                          f_bytes = b_bytes b\<rparr>)"
    by (simp add: uploadRequest_def new_File_def normalizeType_mp4)
  have a: "\<forall>req. FetchCall req \<in> set (fst (uploadVideoForAnalysis baseUrl fetch (Some b) d)) \<longrightarrow>
             req = uploadRequest baseUrl b d"
    by (auto simp: uploadVideoForAnalysis_def Let_def split: if_splits fetched.splits sum.splits)
  have c: "0 < size_blob b \<longrightarrow>
      FetchCall (uploadRequest baseUrl b d)
        \<in> set (fst (uploadVideoForAnalysis baseUrl fetch (Some b) d))"
    by (auto simp: uploadVideoForAnalysis_def Let_def split: if_splits fetched.splits sum.splits)
  have o: "recordedBlob (onstop reported u st) = Some (finalBlob st) \<and>
   b_type (finalBlob st) = lit ''video/mp4'' \<and>
   b_bytes (finalBlob st) = concat (map b_bytes (chunks st)) \<and>
   b_bytes (finalBlob st) = b_bytes (originalBlob reported st)"
    by (simp add: onstop_def finalBlob_def originalBlob_def new_Blob_def normalizeType_mp4)
  from v a c o show ?thesis by metis
qed

theorem canonical_type_relabelling_witness:
  "0 < size_blob sampleBlob \<and>
   FetchCall (uploadRequest API_BASE_URL sampleBlob (lit ''tap''))
     \<in> set (fst (uploadVideoForAnalysis API_BASE_URL fetchSucceeds (Some sampleBlob) (lit ''tap''))) \<and>
   map_of (formData (uploadRequest API_BASE_URL sampleBlob (lit ''tap''))) (lit ''video'')
     = Some (FileValue \<lparr>f_name = lit ''video.mp4'', f_type = lit ''video/mp4'',
                       f_bytes = [0x1A, 0x45, 0xDF]\<rparr>) \<and>
   recordedBlob (onstop (lit ''video/webm;codecs=vp9'') (lit ''blob:2'') sampleRecorder)
     = Some \<lparr>b_bytes = [0x1A, 0x45, 0xDF], b_type = lit ''video/mp4''\<rparr>"
proof -
  have b: "b_bytes sampleBlob = [0x1A, 0x45, 0xDF]" by (simp add: sampleBlob_def)
  have k: "finalBlob sampleRecorder = \<lparr>b_bytes = [0x1A, 0x45, 0xDF], b_type = lit ''video/mp4''\<rparr>"
    by (simp add: finalBlob_def new_Blob_def sampleRecorder_def sampleChunks_def normalizeType_mp4)
  from b k size_sampleBlob
    canonical_type_relabelling [of "lit ''video/webm;codecs=vp9''" "lit ''blob:2''" sampleRecorder
      sampleBlob API_BASE_URL "lit ''tap''" fetchSucceeds]
  show ?thesis by simp
qed

subsection \<open>Choosing the recording format\<close>

lemma selectFormat_None: "selectFormat p xs = None \<longleftrightarrow> (\<forall>g \<in> set xs. \<not> p g)"
  by (induction xs) auto

lemma selectFormat_Some:
  "selectFormat p xs = Some f \<longleftrightarrow>
     (\<exists>pre post. xs = pre @ f # post \<and> p f \<and> (\<forall>g \<in> set pre. \<not> p g))"
proof (induction xs)
  case Nil
  then show ?case by simp
next
  case (Cons x xs)
  show ?case
  proof (cases "p x")
    case True
    have "(\<exists>pre post. x # xs = pre @ f # post \<and> p f \<and> (\<forall>g \<in> set pre. \<not> p g)) \<longleftrightarrow> f = x"
    proof
      assume "\<exists>pre post. x # xs = pre @ f # post \<and> p f \<and> (\<forall>g \<in> set pre. \<not> p g)"
      then obtain pre post where h: "x # xs = pre @ f # post" "\<forall>g \<in> set pre. \<not> p g" by blast
      show "f = x"
      proof (cases pre)
        case Nil
        with h show ?thesis by simp
      next
        case (Cons y ys)
        with h True show ?thesis by auto
      qed
    next
      assume "f = x"
      with True have "x # xs = [] @ f # xs \<and> p f \<and> (\<forall>g \<in> set []. \<not> p g)" by simp
      then show "\<exists>pre post. x # xs = pre @ f # post \<and> p f \<and> (\<forall>g \<in> set pre. \<not> p g)" by blast
    qed
    with True show ?thesis by auto
  next
    case False
    have "(\<exists>pre post. x # xs = pre @ f # post \<and> p f \<and> (\<forall>g \<in> set pre. \<not> p g))
          \<longleftrightarrow> (\<exists>pre post. xs = pre @ f # post \<and> p f \<and> (\<forall>g \<in> set pre. \<not> p g))"
      (is "?L \<longleftrightarrow> ?R")
    proof
      assume ?L
      then obtain pre post where h: "x # xs = pre @ f # post" "p f" "\<forall>g \<in> set pre. \<not> p g" by blast
      show ?R
      proof (cases pre)
        case Nil
        with h False show ?thesis by simp
      next
        case (Cons y ys)
        with h have "xs = ys @ f # post \<and> p f \<and> (\<forall>g \<in> set ys. \<not> p g)" by simp
        then show ?thesis by blast
      qed
    next
      assume ?R
      then obtain pre post where h: "xs = pre @ f # post" "p f" "\<forall>g \<in> set pre. \<not> p g" by blast
      with False have "x # xs = (x # pre) @ f # post \<and> p f \<and> (\<forall>g \<in> set (x # pre). \<not> p g)" by simp
      then show ?L by blast
    qed
    with False Cons show ?thesis by simp
  qed
qed

text \<open>
  C9. For every capability predicate, \<open>startRecording\<close> (with a stream held) constructs
  the recorder with the first format that the predicate accepts of the preference list
  \<open>video/webm;codecs=vp9\<close>, \<open>video/webm;codecs=vp8\<close>, \<open>video/webm\<close>, \<open>video/mp4\<close>,
  \<open>video/ogg;codecs=theora\<close>, \<open>video/ogg\<close>: the format is in that list, it is accepted, and
  every format before it in the list is rejected. The mime type is left unset exactly when
  the predicate rejects all six formats.
\<close>

theorem startRecording_selects_first_supported:
  assumes "streamHeld st"
  shows "\<exists>opts. mediaRecorder (startRecording isTypeSupported st) = Some opts \<and>
           (\<forall>f. mimeType opts = Some f \<longleftrightarrow>
                (\<exists>pre post.
                   [lit ''video/webm;codecs=vp9'', lit ''video/webm;codecs=vp8'', lit ''video/webm'',
                        lit ''video/mp4'', lit ''video/ogg;codecs=theora'', lit ''video/ogg''] = pre @ f # post \<and>
                   isTypeSupported f \<and> (\<forall>g \<in> set pre. \<not> isTypeSupported g))) \<and>
           (mimeType opts = None \<longleftrightarrow>
              (\<forall>g \<in> set [lit ''video/webm;codecs=vp9'', lit ''video/webm;codecs=vp8'', lit ''video/webm'',
                        lit ''video/mp4'', lit ''video/ogg;codecs=theora'', lit ''video/ogg''].
                 \<not> isTypeSupported g))"
proof -
  have general: "\<exists>opts. mediaRecorder (startRecording isTypeSupported st) = Some opts \<and>
           (\<forall>f. mimeType opts = Some f \<longleftrightarrow>
                (\<exists>pre post.
                   supportedFormats = pre @ f # post \<and>
                   isTypeSupported f \<and> (\<forall>g \<in> set pre. \<not> isTypeSupported g))) \<and>
           (mimeType opts = None \<longleftrightarrow>
              (\<forall>g \<in> set supportedFormats.
                 \<not> isTypeSupported g))"
    using assms by (simp add: startRecording_def selectFormat_Some selectFormat_None)
  have l: "supportedFormats = [lit ''video/webm;codecs=vp9'', lit ''video/webm;codecs=vp8'', lit ''video/webm'',
                        lit ''video/mp4'', lit ''video/ogg;codecs=theora'', lit ''video/ogg'']"
    by (simp add: supportedFormats_def)
  from general show ?thesis unfolding l .
qed

theorem startRecording_selects_first_supported_witness:
  "streamHeld sampleRecorder \<and>
   mediaRecorder (startRecording onlyMp4 sampleRecorder)
     = Some \<lparr>mimeType = Some (lit ''video/mp4'')\<rparr> \<and>
   \<not> onlyMp4 (lit ''video/webm;codecs=vp9'') \<and> \<not> onlyMp4 (lit ''video/webm;codecs=vp8'') \<and>
   \<not> onlyMp4 (lit ''video/webm'') \<and> onlyMp4 (lit ''video/mp4'')"
proof -
  have h: "streamHeld sampleRecorder" by (simp add: sampleRecorder_def)
  have s: "[lit ''video/webm;codecs=vp9'', lit ''video/webm;codecs=vp8'', lit ''video/webm'',
            lit ''video/mp4'', lit ''video/ogg;codecs=theora'', lit ''video/ogg'']
           = [lit ''video/webm;codecs=vp9'', lit ''video/webm;codecs=vp8'', lit ''video/webm'']
             @ lit ''video/mp4'' # [lit ''video/ogg;codecs=theora'', lit ''video/ogg'']"
    by simp
  have n: "\<not> onlyMp4 (lit ''video/webm;codecs=vp9'')" "\<not> onlyMp4 (lit ''video/webm;codecs=vp8'')"
    "\<not> onlyMp4 (lit ''video/webm'')" "onlyMp4 (lit ''video/mp4'')"
    by (simp_all add: onlyMp4_def lit_def)
  from n have p: "\<forall>g \<in> set [lit ''video/webm;codecs=vp9'', lit ''video/webm;codecs=vp8'',
                            lit ''video/webm'']. \<not> onlyMp4 g"
    by simp
  from startRecording_selects_first_supported [OF h, of onlyMp4]
  obtain opts where o: "mediaRecorder (startRecording onlyMp4 sampleRecorder) = Some opts"
    and c: "\<forall>f. mimeType opts = Some f \<longleftrightarrow>
                (\<exists>pre post.
                   [lit ''video/webm;codecs=vp9'', lit ''video/webm;codecs=vp8'', lit ''video/webm'',
                        lit ''video/mp4'', lit ''video/ogg;codecs=theora'', lit ''video/ogg''] = pre @ f # post \<and>
                   onlyMp4 f \<and> (\<forall>g \<in> set pre. \<not> onlyMp4 g))"
    by blast
  from c s n(4) p have "mimeType opts = Some (lit ''video/mp4'')" by blast
  then have "opts = \<lparr>mimeType = Some (lit ''video/mp4'')\<rparr>" by (cases opts) simp
  with o h n show ?thesis by simp
qed

section \<open>The submission client\<close>

subsection \<open>Validation of the media\<close>

text \<open>
  C5. An upload with no media object, or with one of size zero, fails with the
  validation error and does nothing else: no timer is armed and no request is issued.
\<close>

theorem upload_rejects_missing_media:
  assumes "videoBlob = None \<or> (\<exists>b. videoBlob = Some b \<and> size_blob b = 0)"
  shows "uploadVideoForAnalysis baseUrl fetch videoBlob d = ([], Inl (new_Error invalidBlobMessage)) \<and>
         \<not> (\<exists>e \<in> set (fst (uploadVideoForAnalysis baseUrl fetch videoBlob d)). isFetchCall e)"
  using assms by (auto simp: uploadVideoForAnalysis_def)

theorem upload_rejects_missing_media_witness:
  "(Some emptyBlob = None \<or> (\<exists>b. Some emptyBlob = Some b \<and> size_blob b = 0)) \<and>
   uploadVideoForAnalysis API_BASE_URL fetchSucceeds (Some emptyBlob) (lit ''tap'')
     = ([], Inl (new_Error invalidBlobMessage)) \<and>
   \<not> (\<exists>e \<in> set (fst (uploadVideoForAnalysis API_BASE_URL fetchSucceeds (Some emptyBlob) (lit ''tap''))).
         isFetchCall e)"
proof -
  have h: "Some emptyBlob = None \<or> (\<exists>b. Some emptyBlob = Some b \<and> size_blob b = 0)"
    by (simp add: emptyBlob_def size_blob_def)
  from h upload_rejects_missing_media [OF h, of API_BASE_URL fetchSucceeds "lit ''tap''"]
  show ?thesis by blast
qed

subsection \<open>The abort timeout\<close>

text \<open>
  C6, for uploads whose media passes the validation. Such an upload first arms a timer of
  120000 milliseconds and then issues the request with the abort signal attached. When
  the request ends with an \<open>AbortError\<close>, the upload fails with the timeout error. That
  error differs from the generic network error, from every other error object that the
  upload rethrows, and from every service error whose message is not the timeout text
  itself (the status-code message never is).
\<close>

theorem upload_timeout:
  assumes "0 < size_blob b"
  shows "signal (uploadRequest baseUrl b d) \<and>
         take 2 (fst (uploadVideoForAnalysis baseUrl fetch (Some b) d))
           = [SetTimeout 120000, FetchCall (uploadRequest baseUrl b d)] \<and>
         ((\<exists>e. fetch (uploadRequest baseUrl b d) = FetchRejects (ErrorObject e) \<and>
               e_name e = lit ''AbortError'') \<longrightarrow>
            snd (uploadVideoForAnalysis baseUrl fetch (Some b) d) = Inl (new_Error timeoutMessage)) \<and>
         (fetch (uploadRequest baseUrl b d) = FetchRejects NotAnError \<longrightarrow>
            snd (uploadVideoForAnalysis baseUrl fetch (Some b) d) = Inl (new_Error networkMessage) \<and>
            new_Error networkMessage \<noteq> new_Error timeoutMessage) \<and>
         (\<forall>e. fetch (uploadRequest baseUrl b d) = FetchRejects (ErrorObject e) \<and>
               e_name e \<noteq> lit ''AbortError'' \<and> e \<noteq> new_Error timeoutMessage \<longrightarrow>
            snd (uploadVideoForAnalysis baseUrl fetch (Some b) d) = Inl e) \<and>
         (\<forall>r. fetch (uploadRequest baseUrl b d) = FetchResolves r \<and> \<not> ok r \<and>
               (\<forall>errorData. rs_json r = Inr errorData \<longrightarrow> message errorData \<noteq> timeoutMessage) \<longrightarrow>
            (\<exists>m. snd (uploadVideoForAnalysis baseUrl fetch (Some b) d) = Inl (new_Error m) \<and>
                 m \<noteq> timeoutMessage))"
proof -
  have 1: "signal (uploadRequest baseUrl b d)" by (simp add: uploadRequest_def)
  have 2: "take 2 (fst (uploadVideoForAnalysis baseUrl fetch (Some b) d))
           = [SetTimeout 120000, FetchCall (uploadRequest baseUrl b d)]"
    using assms
    by (simp add: uploadVideoForAnalysis_def Let_def split: fetched.splits sum.splits)
  have 3: "(\<exists>e. fetch (uploadRequest baseUrl b d) = FetchRejects (ErrorObject e) \<and>
               e_name e = lit ''AbortError'') \<longrightarrow>
            snd (uploadVideoForAnalysis baseUrl fetch (Some b) d) = Inl (new_Error timeoutMessage)"
    using assms by (auto simp: uploadVideoForAnalysis_def Let_def uploadCatch_def)
  have 4: "fetch (uploadRequest baseUrl b d) = FetchRejects NotAnError \<longrightarrow>
            snd (uploadVideoForAnalysis baseUrl fetch (Some b) d) = Inl (new_Error networkMessage) \<and>
            new_Error networkMessage \<noteq> new_Error timeoutMessage"
    using assms network_not_timeout
    by (auto simp: uploadVideoForAnalysis_def Let_def uploadCatch_def new_Error_def)
  have 5: "\<forall>e. fetch (uploadRequest baseUrl b d) = FetchRejects (ErrorObject e) \<and>
               e_name e \<noteq> lit ''AbortError'' \<and> e \<noteq> new_Error timeoutMessage \<longrightarrow>
            snd (uploadVideoForAnalysis baseUrl fetch (Some b) d) = Inl e"
    using assms by (auto simp: uploadVideoForAnalysis_def Let_def uploadCatch_def)
  have 6: "\<forall>r. fetch (uploadRequest baseUrl b d) = FetchResolves r \<and> \<not> ok r \<and>
               (\<forall>errorData. rs_json r = Inr errorData \<longrightarrow> message errorData \<noteq> timeoutMessage) \<longrightarrow>
            (\<exists>m. snd (uploadVideoForAnalysis baseUrl fetch (Some b) d) = Inl (new_Error m) \<and>
                 m \<noteq> timeoutMessage)"
  proof (intro allI impI)
    fix r
    assume h: "fetch (uploadRequest baseUrl b d) = FetchResolves r \<and> \<not> ok r \<and>
               (\<forall>errorData. rs_json r = Inr errorData \<longrightarrow> message errorData \<noteq> timeoutMessage)"
    have ne: "new_Error m \<noteq> \<lparr>e_name = lit ''AbortError'', e_message = x\<rparr>" for m x
      by (simp add: new_Error_def lit_def)
    have nm: "e_name (new_Error m) \<noteq> lit ''AbortError''" for m
      by (simp add: new_Error_def lit_def)
    show "\<exists>m. snd (uploadVideoForAnalysis baseUrl fetch (Some b) d) = Inl (new_Error m) \<and>
                 m \<noteq> timeoutMessage"
    proof (cases "rs_json r")
      case (Inl e)
      with h assms nm have "snd (uploadVideoForAnalysis baseUrl fetch (Some b) d)
                             = Inl (new_Error (httpErrorMessage (rs_status r)))"
        by (simp add: uploadVideoForAnalysis_def Let_def uploadCatch_def)
      with httpError_not_timeout show ?thesis by blast
    next
      case (Inr errorData)
      with h have nt: "message errorData \<noteq> timeoutMessage" by simp
      with Inr h assms nm have "snd (uploadVideoForAnalysis baseUrl fetch (Some b) d)
          = Inl (new_Error (if message errorData = [] then httpErrorMessage (rs_status r)
                            else message errorData))"
        by (simp add: uploadVideoForAnalysis_def Let_def uploadCatch_def)
      moreover have "(if message errorData = [] then httpErrorMessage (rs_status r)
                      else message errorData) \<noteq> timeoutMessage"
        using nt httpError_not_timeout by simp
      ultimately show ?thesis by blast
    qed
  qed
  from 1 2 3 4 5 6 show ?thesis by blast
qed

theorem upload_timeout_witness:
  "0 < size_blob sampleBlob \<and>
   fetchAborts (uploadRequest API_BASE_URL sampleBlob (lit ''tap''))
     = FetchRejects (ErrorObject \<lparr>e_name = lit ''AbortError'',
                                  e_message = lit ''The user aborted a request.''\<rparr>) \<and>
   take 2 (fst (uploadVideoForAnalysis API_BASE_URL fetchAborts (Some sampleBlob) (lit ''tap'')))
     = [SetTimeout 120000, FetchCall (uploadRequest API_BASE_URL sampleBlob (lit ''tap''))] \<and>
   snd (uploadVideoForAnalysis API_BASE_URL fetchAborts (Some sampleBlob) (lit ''tap''))
     = Inl (new_Error timeoutMessage)"
proof -
  have f: "fetchAborts (uploadRequest API_BASE_URL sampleBlob (lit ''tap''))
     = FetchRejects (ErrorObject \<lparr>e_name = lit ''AbortError'',
                                  e_message = lit ''The user aborted a request.''\<rparr>)"
    by (simp add: fetchAborts_def)
  from f size_sampleBlob
       upload_timeout [OF size_sampleBlob, of API_BASE_URL "lit ''tap''" fetchAborts]
  show ?thesis by simp
qed

text \<open>
  Two things keep the property from holding as widely as one might state it: an upload
  that fails validation arms no timer, and a service error whose body carries the timeout
  text as its message is the same error as the timeout.
\<close>

theorem upload_timeout_counterexample:
  "SetTimeout 120000 \<notin> set (fst (uploadVideoForAnalysis API_BASE_URL fetchAborts (Some emptyBlob) (lit ''tap''))) \<and>
   snd (uploadVideoForAnalysis API_BASE_URL fetchGatewayTimeout (Some sampleBlob) (lit ''tap''))
     = snd (uploadVideoForAnalysis API_BASE_URL fetchAborts (Some sampleBlob) (lit ''tap''))"
  by (simp add: uploadVideoForAnalysis_def emptyBlob_def size_blob_def sampleBlob_def
      fetchAborts_def fetchGatewayTimeout_def ok_def uploadCatch_def new_Error_def
      timeoutMessage_def lit_def)

subsection \<open>The connectivity probe\<close>

text \<open>
  C7, with the body taken into account. \<open>testConnection\<close> issues one GET to the probe
  path and always returns a boolean, never an error. It returns true exactly when the
  request resolves with a status in 200..299 and the body parses as JSON; so it returns
  false for a status such as 500, for a reply whose body does not parse, and when the
  request throws.
\<close>

theorem testConnection_total:
  "(\<exists>v. snd (testConnection baseUrl fetch) = Inr v) \<and>
   (snd (testConnection baseUrl fetch) = Inr True \<longleftrightarrow>
      (\<exists>r d. fetch (testConnectionRequest baseUrl) = FetchResolves r \<and>
             200 \<le> rs_status r \<and> rs_status r \<le> 299 \<and> rs_json r = Inr d)) \<and>
   fst (testConnection baseUrl fetch) = [FetchCall (testConnectionRequest baseUrl)]"
  by (auto simp: testConnection_def Let_def ok_def split: fetched.splits sum.splits)

theorem testConnection_total_witness:
  "snd (testConnection API_BASE_URL fetchSucceeds) = Inr True \<and>
   snd (testConnection API_BASE_URL fetchServerError) = Inr False \<and>
   snd (testConnection API_BASE_URL fetchOffline) = Inr False"
proof -
  have a: "fetchSucceeds (testConnectionRequest API_BASE_URL)
             = FetchResolves \<lparr>rs_status = 200, rs_json = Inr sampleResponse\<rparr>"
    by (simp add: fetchSucceeds_def)
  have b: "fetchServerError (testConnectionRequest API_BASE_URL)
             = FetchResolves \<lparr>rs_status = 500,
                  rs_json = Inl \<lparr>e_name = lit ''SyntaxError'',
                                 e_message = lit ''Unexpected end of JSON input''\<rparr>\<rparr>"
    by (simp add: fetchServerError_def)
  have c: "fetchOffline (testConnectionRequest API_BASE_URL)
             = FetchRejects (ErrorObject \<lparr>e_name = lit ''TypeError'',
                                          e_message = lit ''Failed to fetch''\<rparr>)"
    by (simp add: fetchOffline_def)
  from testConnection_total [of API_BASE_URL fetchSucceeds] a
  have 1: "snd (testConnection API_BASE_URL fetchSucceeds) = Inr True" by simp
  from testConnection_total [of API_BASE_URL fetchServerError] b
  have 2: "snd (testConnection API_BASE_URL fetchServerError) = Inr False" by auto
  from testConnection_total [of API_BASE_URL fetchOffline] c
  have 3: "snd (testConnection API_BASE_URL fetchOffline) = Inr False" by auto
  from 1 2 3 show ?thesis by simp
qed

text \<open>
  A status of 200 alone does not make the probe return true: a reply with status 200
  whose body is not JSON makes \<open>response.json()\<close> reject inside the \<open>try\<close>.
\<close>

theorem testConnection_counterexample:
  "fetchHtmlPage (testConnectionRequest API_BASE_URL)
     = FetchResolves \<lparr>rs_status = 200,
          rs_json = Inl \<lparr>e_name = lit ''SyntaxError'', e_message = lit ''Unexpected token <''\<rparr>\<rparr> \<and>
   snd (testConnection API_BASE_URL fetchHtmlPage) = Inr False"
  by (simp add: testConnection_def fetchHtmlPage_def ok_def Let_def)

end
